theory Spec2Isabelle
  imports Main
begin

section \<open>Python values and exceptions used by the two scripts\<close>

text \<open>
  The exceptions that can travel through the scripts. \<open>TimeoutError\<close> and
  \<open>PlaywrightError\<close> come from the browser-automation library, \<open>OSError\<close> from the
  file system, \<open>TypeError\<close> from the interpreter itself, and \<open>KeyboardInterrupt\<close> is
  a \<open>BaseException\<close> that is not an \<open>Exception\<close> (a bare \<open>except:\<close> still catches it).
\<close>

datatype exn =
    TimeoutError
  | PlaywrightError string
  | OSError string
  | TypeError
  | KeyboardInterrupt

text \<open>
  \<open>startswith\<close> and \<open>str_contains\<close> are Python's \<open>str.startswith\<close> and the
  substring test \<open>needle in hay\<close> on strings.
\<close>

fun startswith :: "string \<Rightarrow> string \<Rightarrow> bool" where
  "startswith [] hay = True"
| "startswith (a # as) [] = False"
| "startswith (a # as) (b # bs) = (a = b \<and> startswith as bs)"

fun str_contains :: "string \<Rightarrow> string \<Rightarrow> bool" where
  "str_contains needle [] = (needle = [])"
| "str_contains needle (c # cs) = (startswith needle (c # cs) \<or> str_contains needle cs)"

text \<open>
  \<open>get_attribute\<close> returns \<open>Optional[str]\<close>: \<open>None\<close> is Python's \<open>None\<close>.
  \<open>py_str\<close> is what an f-string prints for such a value, and \<open>py_in\<close> is the
  operator \<open>needle in v\<close>: on \<open>None\<close> the interpreter raises \<open>TypeError\<close>
  (argument of type NoneType is not iterable).
\<close>

definition py_str :: "string option \<Rightarrow> string" where
  "py_str v = (case v of None \<Rightarrow> ''None'' | Some s \<Rightarrow> s)"

definition py_in :: "string \<Rightarrow> string option \<Rightarrow> exn + bool" where
  "py_in needle v = (case v of None \<Rightarrow> Inl TypeError | Some s \<Rightarrow> Inr (str_contains needle s))"

section \<open>The outside world\<close>

text \<open>
  Every call that leaves the script is a \<open>call\<close>. A run leaves a trace of events: a line
  printed on standard output, a call that returned (\<open>Ok\<close>) or a call that raised
  (\<open>Raised\<close>). \<open>Enter\<close> and \<open>Exit\<close> are the \<open>__enter__\<close> and \<open>__exit__\<close> of the
  \<open>with sync_playwright() as p\<close> block.
\<close>

datatype call =
    Enter
  | Exit
  | Launch
  | NewPage
  | Goto string
  | WaitForSelector string nat
  | GetAttribute string string
  | Makedirs string
  | Screenshot string
  | Close

datatype event =
    Print string
  | Ok call
  | Raised call exn

text \<open>
  What the library, the browser and the file system answer is not decided by the scripts:
  it is a parameter of every run. \<open>Inl e\<close> is the call raising \<open>e\<close>.
\<close>

record world =
  enter :: "exn + unit"
  launch :: "exn + unit"
  new_page :: "exn + unit"
  cwd :: string
  goto :: "string \<Rightarrow> exn + unit"
  wait_for_selector :: "exn + unit"
  get_attribute :: "exn + string option"
  makedirs :: "exn + unit"
  screenshot :: "exn + unit"
  close :: "exn + unit"

section \<open>Control flow: sequencing, exceptions, cleanup\<close>

type_synonym 'a prog = "event list \<Rightarrow> (exn + 'a) \<times> event list"

definition bind :: "'a prog \<Rightarrow> ('a \<Rightarrow> 'b prog) \<Rightarrow> 'b prog" where
  "bind m k = (\<lambda>tr. case m tr of
                      (Inl e, tr') \<Rightarrow> (Inl e, tr')
                    | (Inr x, tr') \<Rightarrow> k x tr')"

definition print :: "string \<Rightarrow> unit prog" where
  "print s = (\<lambda>tr. (Inr (), tr @ [Print s]))"

definition logged :: "call \<Rightarrow> exn + 'a \<Rightarrow> event" where
  "logged c r = (case r of Inl e \<Rightarrow> Raised c e | Inr x \<Rightarrow> Ok c)"

definition lib :: "call \<Rightarrow> exn + 'a \<Rightarrow> 'a prog" where
  "lib c r = (\<lambda>tr. (r, tr @ [logged c r]))"

text \<open>
  \<open>try: body / except: handler\<close> with a bare \<open>except\<close>: whatever the body raises is
  dropped and the handler runs.
\<close>

definition try_except :: "'a prog \<Rightarrow> 'a prog \<Rightarrow> 'a prog" where
  "try_except body handler = (\<lambda>tr. case body tr of
                      (Inl e, tr') \<Rightarrow> handler tr'
                    | (Inr x, tr') \<Rightarrow> (Inr x, tr'))"

text \<open>
  \<open>try: body / finally: fin\<close>: the finaliser runs on every path; when it raises, its
  exception replaces the body's result, otherwise the body's result stands.
\<close>

definition try_finally :: "'a prog \<Rightarrow> unit prog \<Rightarrow> 'a prog" where
  "try_finally body fin = (\<lambda>tr. case body tr of
                      (r, tr') \<Rightarrow> (case fin tr' of
                                     (Inl e, tr'') \<Rightarrow> (Inl e, tr'')
                                   | (Inr u, tr'') \<Rightarrow> (r, tr'')))"

text \<open>
  \<open>with sync_playwright() as p: body\<close>. When \<open>__enter__\<close> raises the body does not
  run and nothing is exited; otherwise \<open>__exit__\<close> runs after the body on every path and
  does not suppress the body's exception. \<open>__exit__\<close> itself, like \<open>print\<close> and
  \<open>os.getcwd\<close>, is taken not to raise.
\<close>

definition with_sync_playwright :: "world \<Rightarrow> 'a prog \<Rightarrow> 'a prog" where
  "with_sync_playwright w body =
     bind (lib Enter (enter w)) (\<lambda>p. try_finally body (lib Exit (Inr ())))"

section \<open>verify\_demo.py\<close>

text \<open>
  \<open>run\<close> is the function \<open>run()\<close>, which is all the script executes. Its statements
  follow the source line by line; \<open>browser.close()\<close> is the last one, inside the
  \<open>with\<close> block and outside any \<open>finally\<close>.
\<close>

definition file_path :: "string \<Rightarrow> string" where
  "file_path d = ''file://'' @ d @ ''/docs/demo.html''"

definition screenshot_path :: string where
  "screenshot_path = ''verification/demo_page.png''"

definition run :: "world \<Rightarrow> unit prog" where
  "run w = with_sync_playwright w
     (bind (lib Launch (launch w)) (\<lambda>browser.
      bind (lib NewPage (new_page w)) (\<lambda>page.
      bind (print (''Navigating to '' @ file_path (cwd w))) (\<lambda>u.
      bind (lib (Goto (file_path (cwd w))) (goto w (file_path (cwd w)))) (\<lambda>u.
      bind (lib (GetAttribute ''video source'' ''src'') (get_attribute w)) (\<lambda>video_source.
      bind (print (''Video source: '' @ py_str video_source)) (\<lambda>u.
      bind (\<lambda>tr. (py_in ''assets/demo.mp4'' video_source, tr)) (\<lambda>found.
      bind (if found then print ''SUCCESS: Video source is correct.''
            else print ''FAILURE: Video source is incorrect.'') (\<lambda>u.
      bind (lib (Makedirs ''verification'') (makedirs w)) (\<lambda>u.
      bind (lib (Screenshot screenshot_path) (screenshot w)) (\<lambda>u.
      bind (print (''Screenshot saved to '' @ screenshot_path)) (\<lambda>u.
      lib Close (close w)))))))))))))"

section \<open>verification/verify\_dashboard.py\<close>

text \<open>
  \<open>verify\<close> is the function \<open>verify(page)\<close>; \<open>main\<close> is the block under
  \<open>if __name__ == "__main__"\<close>, where \<open>launch\<close> and \<open>new_page\<close> stand before the
  \<open>try\<close> and \<open>browser.close()\<close> in its \<open>finally\<close>. The script has no directory
  creation of its own.
\<close>

definition dashboard_url :: string where
  "dashboard_url = ''http://localhost:3000/mobile''"

definition dashboard_png :: string where
  "dashboard_png = ''verification/dashboard_mobile_after_fix.png''"

definition timeout_message :: string where
  "timeout_message = ''Timeout waiting for tips, taking screenshot anyway''"

definition verify :: "world \<Rightarrow> unit prog" where
  "verify w =
     bind (lib (Goto dashboard_url) (goto w dashboard_url)) (\<lambda>u.
     bind (try_except (lib (WaitForSelector ''.t-pending'' 5000) (wait_for_selector w))
                      (print timeout_message)) (\<lambda>u.
     lib (Screenshot dashboard_png) (screenshot w)))"

definition main :: "world \<Rightarrow> unit prog" where
  "main w = with_sync_playwright w
     (bind (lib Launch (launch w)) (\<lambda>browser.
      bind (lib NewPage (new_page w)) (\<lambda>page.
      try_finally (verify w) (lib Close (close w)))))"

section \<open>Observing a run\<close>

text \<open>
  A script starts with an empty trace. \<open>outcome\<close> is how the script ends (\<open>Inr ()\<close>:
  it returned; \<open>Inl e\<close>: the exception \<open>e\<close> escaped), \<open>trace\<close> what it did.
\<close>

definition outcome :: "unit prog \<Rightarrow> exn + unit" where
  "outcome p = fst (p [])"

definition trace :: "unit prog \<Rightarrow> event list" where
  "trace p = snd (p [])"

text \<open>
  The exit status of the interpreter. A script that returned ends with status 0 and one
  that an exception escaped from with status 1; when the interpreter cannot flush
  standard output at exit (\<open>flushed\<close> is \<open>False\<close>) the status is 120 in both cases;
  after \<open>KeyboardInterrupt\<close> the process ends on the signal, status 130.
\<close>

definition exit_code :: "bool \<Rightarrow> exn + unit \<Rightarrow> nat" where
  "exit_code flushed r =
     (case r of
        Inl KeyboardInterrupt \<Rightarrow> 130
      | Inl e \<Rightarrow> (if flushed then 1 else 120)
      | Inr u \<Rightarrow> (if flushed then 0 else 120))"

fun is_call :: "call \<Rightarrow> event \<Rightarrow> bool" where
  "is_call c (Ok c') = (c = c')"
| "is_call c (Raised c' e) = (c = c')"
| "is_call c (Print s) = False"

definition calls :: "call \<Rightarrow> event list \<Rightarrow> nat" where
  "calls c tr = length (filter (is_call c) tr)"

definition printed :: "string \<Rightarrow> event list \<Rightarrow> bool" where
  "printed s tr = (Print s \<in> set tr)"

definition written :: "string \<Rightarrow> event list \<Rightarrow> bool" where
  "written path tr = (Ok (Screenshot path) \<in> set tr)"

fun goto_target :: "event \<Rightarrow> string option" where
  "goto_target (Ok (Goto u)) = Some u"
| "goto_target (Raised (Goto u) e) = Some u"
| "goto_target ev = None"

definition navigated :: "event list \<Rightarrow> string list" where
  "navigated tr = List.map_filter goto_target tr"

text \<open>
  \<open>dirname\<close> is the containing directory of a relative path: everything before its
  last slash. \<open>made_before ds tr\<close> scans a trace from the left and holds when every
  screenshot call in it comes after a successful \<open>makedirs\<close> of the directory that
  contains the screenshot's path (\<open>ds\<close>: the directories made so far).
\<close>

definition dirname :: "string \<Rightarrow> string" where
  "dirname p = rev (tl (dropWhile (\<lambda>c. c \<noteq> CHR ''/'') (rev p)))"

fun made_before :: "string list \<Rightarrow> event list \<Rightarrow> bool" where
  "made_before ds [] = True"
| "made_before ds (Ok (Makedirs d) # tr) = made_before (d # ds) tr"
| "made_before ds (Ok (Screenshot p) # tr) = (dirname p \<in> set ds \<and> made_before ds tr)"
| "made_before ds (Raised (Screenshot p) e # tr) = (dirname p \<in> set ds \<and> made_before ds tr)"
| "made_before ds (ev # tr) = made_before ds tr"

section \<open>The browser session\<close>

text \<open>
  Modelled from the spec: the browser-automation library is not under src/. The spec
  calls the browser session a scoped resource, acquired at the start of the routine and
  released (closed) when the scope is left. So a browser is open from a \<open>launch\<close> that
  returned until \<open>browser.close()\<close> returns or the \<open>with sync_playwright()\<close> block is
  left, whichever comes first: leaving the block stops the library's driver and with it
  every browser the driver launched. \<open>session_open s tr\<close> tells whether a browser is open
  after the trace \<open>tr\<close> (\<open>s\<close>: whether one was open before it), and \<open>closings s tr\<close>
  counts how many times an open browser was closed.
\<close>

fun session_open :: "bool \<Rightarrow> event list \<Rightarrow> bool" where
  "session_open s [] = s"
| "session_open s (Ok Launch # tr) = session_open True tr"
| "session_open s (Ok Close # tr) = session_open False tr"
| "session_open s (Ok Exit # tr) = session_open False tr"
| "session_open s (ev # tr) = session_open s tr"

fun closings :: "bool \<Rightarrow> event list \<Rightarrow> nat" where
  "closings s [] = 0"
| "closings s (Ok Launch # tr) = closings True tr"
| "closings s (Ok Close # tr) = (if s then 1 else 0) + closings False tr"
| "closings s (Ok Exit # tr) = (if s then 1 else 0) + closings False tr"
| "closings s (ev # tr) = closings s tr"

section \<open>The disk\<close>

text \<open>
  Modelled from the spec: the file system and the library's \<open>page.screenshot\<close> are not
  under src/. The spec gives the library's contract as \<open>screenshot(path) -> file written\<close>
  and says of the screenshot that it is written to a fixed relative output path,
  creating the containing directory if absent. The disk is the list of directories and
  the list of files that exist. \<open>os.makedirs(d, exist_ok=True)\<close> that returned has made
  \<open>d\<close> (\<open>Mkdir\<close>, no error when it exists). A screenshot call that returned has written
  its file (\<open>WriteFile\<close>), which fails for lack of the parent directory when the directory
  containing the path does not exist. Whether the call itself first creates that
  directory is the parameter \<open>lm\<close>: \<open>True\<close> is the contract of the spec, \<open>False\<close> a
  call that only writes.
\<close>

datatype fs_op = Mkdir string | WriteFile string

fun fs_ops :: "bool \<Rightarrow> event \<Rightarrow> fs_op list" where
  "fs_ops lm (Ok (Makedirs d)) = [Mkdir d]"
| "fs_ops lm (Ok (Screenshot p)) =
     (if lm then [Mkdir (dirname p), WriteFile p] else [WriteFile p])"
| "fs_ops lm ev = []"

fun fs_run :: "fs_op list \<Rightarrow> string list \<Rightarrow> string list \<Rightarrow> exn + string list \<times> string list" where
  "fs_run [] ds fs = Inr (ds, fs)"
| "fs_run (Mkdir d # ops) ds fs = fs_run ops (List.insert d ds) fs"
| "fs_run (WriteFile p # ops) ds fs =
     (if dirname p \<in> set ds then fs_run ops ds (p # fs)
      else Inl (OSError ''No such file or directory''))"

definition disk_after :: "bool \<Rightarrow> string list \<Rightarrow> event list \<Rightarrow> exn + string list \<times> string list" where
  "disk_after lm ds tr = fs_run (concat (map (fs_ops lm) tr)) ds []"

section \<open>Concrete worlds\<close>

text \<open>
  \<open>nominal\<close>: every call succeeds, the scripts are started in \<open>/repo\<close> and the page
  holds \<open><video><source src="assets/demo.mp4"></video>\<close>. The other worlds differ from it
  in one answer each.
\<close>

definition nominal :: world where
  "nominal = \<lparr> enter = Inr (), launch = Inr (), new_page = Inr (), cwd = ''/repo'',
      goto = (\<lambda>u. Inr ()), wait_for_selector = Inr (),
      get_attribute = Inr (Some ''assets/demo.mp4''), makedirs = Inr (),
      screenshot = Inr (), close = Inr () \<rparr>"

definition no_browser :: world where
  "no_browser = nominal\<lparr>launch := Inl (PlaywrightError ''browser executable not found'')\<rparr>"

definition unreachable :: world where
  "unreachable = nominal\<lparr>goto := (\<lambda>u. Inl (PlaywrightError ''net::ERR_FILE_NOT_FOUND''))\<rparr>"

definition no_src_attribute :: world where
  "no_src_attribute = nominal\<lparr>get_attribute := Inr None\<rparr>"

definition no_video_element :: world where
  "no_video_element = nominal\<lparr>get_attribute := Inl TimeoutError\<rparr>"

definition selector_absent :: world where
  "selector_absent = nominal\<lparr>wait_for_selector := Inl TimeoutError\<rparr>"

definition interrupted :: world where
  "interrupted = nominal\<lparr>wait_for_selector := Inl KeyboardInterrupt\<rparr>"

definition screenshot_fails :: world where
  "screenshot_fails = nominal\<lparr>screenshot := Inl (OSError ''No space left on device'')\<rparr>"

definition wrong_video :: world where
  "wrong_video = nominal\<lparr>get_attribute := Inr (Some ''assets/wrong.mp4'')\<rparr>"

definition other_video :: world where
  "other_video = nominal\<lparr>get_attribute := Inr (Some ''other/assets/demo.mp4?v=2'')\<rparr>"

definition elsewhere :: world where
  "elsewhere = nominal\<lparr>cwd := ''/tmp''\<rparr>"

section \<open>Basic facts\<close>

lemmas world_defs = nominal_def no_browser_def unreachable_def no_src_attribute_def no_video_element_def
  selector_absent_def interrupted_def screenshot_fails_def wrong_video_def other_video_def
  elsewhere_def

lemmas text_defs = file_path_def screenshot_path_def dashboard_url_def dashboard_png_def
  timeout_message_def py_str_def

subsection \<open>Substrings\<close>

lemma startswith_append: "startswith n (n @ s)"
  by (induction n) auto

lemma startswith_iff: "startswith n h \<longleftrightarrow> (\<exists>s. h = n @ s)"
  by (induction n h rule: startswith.induct) auto

lemma str_contains_iff: "str_contains n h \<longleftrightarrow> (\<exists>p s. h = p @ n @ s)"
proof (induction h)
  case Nil
  then show ?case by auto
next
  case (Cons c cs)
  show ?case
  proof
    assume "str_contains n (c # cs)"
    then consider "startswith n (c # cs)" | "str_contains n cs" by auto
    then show "\<exists>p s. c # cs = p @ n @ s"
    proof cases
      case 1
      then obtain s where "c # cs = n @ s" using startswith_iff by blast
      then have "c # cs = [] @ n @ s" by simp
      then show ?thesis by blast
    next
      case 2
      then obtain p s where "cs = p @ n @ s" using Cons.IH by blast
      then have "c # cs = (c # p) @ n @ s" by simp
      then show ?thesis by blast
    qed
  next
    assume "\<exists>p s. c # cs = p @ n @ s"
    then obtain p s where ps: "c # cs = p @ n @ s" by blast
    show "str_contains n (c # cs)"
    proof (cases p)
      case Nil
      then have "startswith n (c # cs)" using ps startswith_append by simp
      then show ?thesis by simp
    next
      case (Cons a p')
      then have "cs = p' @ n @ s" using ps by simp
      then have "str_contains n cs" using Cons.IH by blast
      then show ?thesis by simp
    qed
  qed
qed

lemma str_contains_append: "str_contains n (p @ n @ s)"
  using str_contains_iff by blast

subsection \<open>Running one statement\<close>

lemma bind_lib [simp]:
  "bind (lib c r) k tr =
     (case r of Inl e \<Rightarrow> (Inl e, tr @ [Raised c e]) | Inr x \<Rightarrow> k x (tr @ [Ok c]))"
  by (simp add: bind_def lib_def logged_def split: sum.splits)

lemma bind_print [simp]: "bind (print s) k tr = k () (tr @ [Print s])"
  by (simp add: bind_def print_def)

lemma bind_py_in [simp]:
  "bind (\<lambda>tr. (py_in n v, tr)) k tr =
     (case v of None \<Rightarrow> (Inl TypeError, tr) | Some s \<Rightarrow> k (str_contains n s) tr)"
  by (simp add: bind_def py_in_def split: option.splits)

lemma lib_apply [simp]:
  "lib c r tr = (r, tr @ [case r of Inl e \<Rightarrow> Raised c e | Inr x \<Rightarrow> Ok c])"
  by (simp add: lib_def logged_def)

lemma print_apply [simp]: "print s tr = (Inr (), tr @ [Print s])"
  by (simp add: print_def)

lemma with_apply [simp]:
  "with_sync_playwright w body tr =
     (case enter w of Inl e \<Rightarrow> (Inl e, tr @ [Raised Enter e])
      | Inr x \<Rightarrow> (fst (body (tr @ [Ok Enter])), snd (body (tr @ [Ok Enter])) @ [Ok Exit]))"
  by (simp add: with_sync_playwright_def try_finally_def split: sum.splits prod.splits)

lemma try_finally_lib [simp]:
  "try_finally body (lib c r) tr =
     (case r of Inl e \<Rightarrow> (Inl e, snd (body tr) @ [Raised c e])
              | Inr u \<Rightarrow> (fst (body tr), snd (body tr) @ [Ok c]))"
  by (simp add: try_finally_def split: sum.splits prod.splits)

lemma bind_try_except_lib_print [simp]:
  "bind (try_except (lib c r) (print s)) k tr =
     (case r of Inl e \<Rightarrow> k () (tr @ [Raised c e, Print s]) | Inr x \<Rightarrow> k x (tr @ [Ok c]))"
  by (simp add: bind_def try_except_def split: sum.splits)

section \<open>The attribute check\<close>

text \<open>
  C2 (for every value of the attribute, \<open>None\<close> included, the run prints SUCCESS when
  the value contains the expected substring and FAILURE otherwise, and the comparison
  never raises). When \<open>get_attribute\<close> returns \<open>None\<close> the script prints
  \<open>Video source: None\<close>, the comparison raises \<open>TypeError\<close>, and neither SUCCESS nor
  FAILURE is printed.
\<close>

theorem run_none_attribute:
  "outcome (run no_src_attribute) = Inl TypeError
   \<and> printed ''Video source: None'' (trace (run no_src_attribute))
   \<and> \<not> printed ''SUCCESS: Video source is correct.'' (trace (run no_src_attribute))
   \<and> \<not> printed ''FAILURE: Video source is incorrect.'' (trace (run no_src_attribute))"
  by (simp add: outcome_def trace_def run_def world_defs printed_def text_defs)

section \<open>The selector wait of the dashboard script\<close>

text \<open>
  C4 (when the awaited selector does not appear within 5000 ms, the run completes with
  no exception escaping, the timeout message is printed, and the screenshot is still
  written). The target loads and the remaining calls (screenshot, close) succeed, as in
  the scenario the claim describes; only the wait for \<open>.t-pending\<close>, called with a
  timeout of 5000, raises \<open>TimeoutError\<close>.
\<close>

theorem main_selector_timeout:
  assumes "enter w = Inr ()" and "launch w = Inr ()" and "new_page w = Inr ()"
    and "goto w dashboard_url = Inr ()"
    and "wait_for_selector w = Inl TimeoutError"
    and "screenshot w = Inr ()" and "close w = Inr ()"
  shows "outcome (main w) = Inr ()
     \<and> Raised (WaitForSelector ''.t-pending'' 5000) TimeoutError \<in> set (trace (main w))
     \<and> printed timeout_message (trace (main w))
     \<and> written dashboard_png (trace (main w))"
  using assms by (simp add: outcome_def trace_def main_def verify_def printed_def written_def)

theorem main_selector_timeout_witness:
  "enter selector_absent = Inr () \<and> launch selector_absent = Inr ()
   \<and> new_page selector_absent = Inr () \<and> goto selector_absent dashboard_url = Inr ()
   \<and> wait_for_selector selector_absent = Inl TimeoutError
   \<and> screenshot selector_absent = Inr () \<and> close selector_absent = Inr ()
   \<and> outcome (main selector_absent) = Inr ()
   \<and> Raised (WaitForSelector ''.t-pending'' 5000) TimeoutError
        \<in> set (trace (main selector_absent))
   \<and> printed ''Timeout waiting for tips, taking screenshot anyway''
        (trace (main selector_absent))
   \<and> written ''verification/dashboard_mobile_after_fix.png'' (trace (main selector_absent))"
  using main_selector_timeout [of selector_absent]
  by (simp add: selector_absent_def nominal_def timeout_message_def dashboard_png_def)

text \<open>
  C8 (the \<open>except\<close> clause around the selector wait is unqualified: every exception that
  \<open>wait_for_selector\<close> raises, not only a timeout, is swallowed, the same message is
  printed, and execution goes on to the screenshot step). After a navigation that
  succeeded, whatever exception \<open>e\<close> the wait raises, \<open>verify\<close> prints the timeout message,
  makes the screenshot call, and ends the way the screenshot call ends: \<open>e\<close> is gone.
\<close>

theorem verify_bare_except:
  assumes "goto w dashboard_url = Inr ()" and "wait_for_selector w = Inl e"
  shows "verify w tr =
     (screenshot w,
      tr @ [Ok (Goto dashboard_url),
            Raised (WaitForSelector ''.t-pending'' 5000) e,
            Print timeout_message,
            logged (Screenshot dashboard_png) (screenshot w)])"
  using assms by (simp add: verify_def logged_def)

theorem verify_bare_except_witness:
  "goto interrupted dashboard_url = Inr ()
   \<and> wait_for_selector interrupted = Inl KeyboardInterrupt
   \<and> verify interrupted [] =
     (Inr (),
      [Ok (Goto ''http://localhost:3000/mobile''),
       Raised (WaitForSelector ''.t-pending'' 5000) KeyboardInterrupt,
       Print ''Timeout waiting for tips, taking screenshot anyway'',
       Ok (Screenshot ''verification/dashboard_mobile_after_fix.png'')])"
  using verify_bare_except [of interrupted KeyboardInterrupt "[]"]
  by (simp add: interrupted_def nominal_def logged_def text_defs)


section \<open>Reaching the screenshot\<close>

text \<open>
  After a navigation that succeeded the dashboard script always makes the screenshot call,
  whatever the selector wait did. The demo script makes it when the attribute read
  returned a string (matching or not) and the directory could be created.
\<close>

lemma main_reaches_screenshot:
  "enter w = Inr () \<Longrightarrow> launch w = Inr () \<Longrightarrow> new_page w = Inr () \<Longrightarrow>
   goto w dashboard_url = Inr () \<Longrightarrow>
   logged (Screenshot dashboard_png) (screenshot w) \<in> set (trace (main w))"
  by (simp add: trace_def main_def verify_def logged_def split: sum.split)

lemma run_reaches_screenshot:
  "enter w = Inr () \<Longrightarrow> launch w = Inr () \<Longrightarrow> new_page w = Inr () \<Longrightarrow>
   goto w (file_path (cwd w)) = Inr () \<Longrightarrow> get_attribute w = Inr (Some s) \<Longrightarrow>
   makedirs w = Inr () \<Longrightarrow>
   logged (Screenshot screenshot_path) (screenshot w) \<in> set (trace (run w))"
  by (simp add: trace_def run_def logged_def split: sum.split)

text \<open>
  C3, as amended (in every run in which the session opened, navigation completed and the
  calls on the way to the file do not raise, the screenshot is written whether or not
  the readiness condition was met). Dashboard script: with a screenshot call that
  succeeds, the file is written whatever \<open>wait_for_selector\<close> answered. Demo script: with
  an attribute read that returned a string, and \<open>makedirs\<close> and the screenshot call
  succeeding, the file is written for every string, containing the expected substring or
  not.
\<close>

theorem screenshot_written:
  "(enter w = Inr () \<and> launch w = Inr () \<and> new_page w = Inr ()
      \<and> goto w dashboard_url = Inr () \<and> screenshot w = Inr ()
     \<longrightarrow> written dashboard_png (trace (main w)))
   \<and> (enter w = Inr () \<and> launch w = Inr () \<and> new_page w = Inr ()
      \<and> goto w (file_path (cwd w)) = Inr () \<and> get_attribute w = Inr (Some s)
      \<and> makedirs w = Inr () \<and> screenshot w = Inr ()
     \<longrightarrow> written screenshot_path (trace (run w)))"
  using main_reaches_screenshot [of w] run_reaches_screenshot [of w s]
  by (auto simp add: written_def logged_def)

theorem screenshot_written_witness:
  "wait_for_selector selector_absent = Inl TimeoutError
   \<and> written dashboard_png (trace (main selector_absent))
   \<and> get_attribute wrong_video = Inr (Some ''assets/wrong.mp4'')
   \<and> \<not> str_contains ''assets/demo.mp4'' ''assets/wrong.mp4''
   \<and> written screenshot_path (trace (run wrong_video))"
  using screenshot_written [of selector_absent "''''"]
    screenshot_written [of wrong_video "''assets/wrong.mp4''"]
  by (simp add: selector_absent_def wrong_video_def nominal_def)

text \<open>
  C3, as stated (a screenshot is written whenever the session opened and navigation
  completed), fails in the demo script: when the page has no \<open>video source\<close> element the
  attribute read raises \<open>TimeoutError\<close>, nothing catches it, and the screenshot call is
  never made although the browser was launched and the navigation succeeded.
\<close>

theorem screenshot_not_written_counterexample:
  "Ok Launch \<in> set (trace (run no_video_element))
   \<and> Ok (Goto ''file:///repo/docs/demo.html'') \<in> set (trace (run no_video_element))
   \<and> calls (Screenshot screenshot_path) (trace (run no_video_element)) = 0
   \<and> \<not> written screenshot_path (trace (run no_video_element))"
  by (simp add: trace_def run_def calls_def written_def world_defs text_defs)


section \<open>The target of the demo script\<close>

text \<open>
  Once the page exists, the demo script navigates exactly once, to the URL built from the
  working directory.
\<close>

lemma run_navigated:
  "enter w = Inr () \<Longrightarrow> launch w = Inr () \<Longrightarrow> new_page w = Inr () \<Longrightarrow>
   navigated (trace (run w)) = [file_path (cwd w)]"
  by (simp add: trace_def run_def navigated_def List.map_filter_simps split: sum.split option.split)

text \<open>
  C9 (the demo script's target URL is \<open>file://\<close> followed by the working directory and
  \<open>/docs/demo.html\<close>, so two invocations from different working directories navigate to
  different files). For two runs that both get as far as navigating, each calls \<open>goto\<close>
  once with that URL, and different working directories give different URLs.
\<close>

theorem run_target_follows_cwd:
  assumes "enter w1 = Inr ()" and "launch w1 = Inr ()" and "new_page w1 = Inr ()"
    and "enter w2 = Inr ()" and "launch w2 = Inr ()" and "new_page w2 = Inr ()"
    and "cwd w1 \<noteq> cwd w2"
  shows "navigated (trace (run w1)) = [''file://'' @ cwd w1 @ ''/docs/demo.html'']
     \<and> navigated (trace (run w2)) = [''file://'' @ cwd w2 @ ''/docs/demo.html'']
     \<and> navigated (trace (run w1)) \<noteq> navigated (trace (run w2))"
  using assms run_navigated [of w1] run_navigated [of w2] by (simp add: file_path_def)

theorem run_target_follows_cwd_witness:
  "cwd nominal \<noteq> cwd elsewhere
   \<and> navigated (trace (run nominal)) = [''file:///repo/docs/demo.html'']
   \<and> navigated (trace (run elsewhere)) = [''file:///tmp/docs/demo.html'']
   \<and> navigated (trace (run nominal)) \<noteq> navigated (trace (run elsewhere))"
  using run_target_follows_cwd [of nominal elsewhere]
  by (simp add: elsewhere_def nominal_def)

section \<open>The attribute check on strings\<close>

text \<open>
  When \<open>get_attribute\<close> returns a string, the comparison does not raise: SUCCESS is
  printed exactly when the string contains \<open>assets/demo.mp4\<close>, FAILURE exactly when it
  does not, and the script goes on to create the directory.
\<close>

lemma run_classifies_strings:
  "enter w = Inr () \<Longrightarrow> launch w = Inr () \<Longrightarrow> new_page w = Inr () \<Longrightarrow>
   goto w (file_path (cwd w)) = Inr () \<Longrightarrow> get_attribute w = Inr (Some s) \<Longrightarrow>
   printed ''SUCCESS: Video source is correct.'' (trace (run w)) = str_contains ''assets/demo.mp4'' s
   \<and> printed ''FAILURE: Video source is incorrect.'' (trace (run w)) = (\<not> str_contains ''assets/demo.mp4'' s)
   \<and> calls (Makedirs ''verification'') (trace (run w)) = 1"
  by (simp add: trace_def run_def printed_def calls_def text_defs split: sum.split)


section \<open>Closing the browser session\<close>

text \<open>
  Each script leaves its \<open>with sync_playwright()\<close> block exactly once when it entered
  it, whichever call raises. After every run no browser is open, and a browser that was
  launched has been closed exactly once.
\<close>

lemma run_exits_once:
  "calls Exit (trace (run w)) = (if enter w = Inr () then 1 else 0)"
  by (simp add: trace_def run_def calls_def split: sum.split option.split)

lemma main_exits_once:
  "calls Exit (trace (main w)) = (if enter w = Inr () then 1 else 0)"
  by (simp add: trace_def main_def verify_def calls_def split: sum.split)

lemma run_session:
  "\<not> session_open False (trace (run w))
   \<and> closings False (trace (run w)) = (if Ok Launch \<in> set (trace (run w)) then 1 else 0)"
  by (simp add: trace_def run_def split: sum.split option.split)

lemma main_session:
  "\<not> session_open False (trace (main w))
   \<and> closings False (trace (main w)) = (if Ok Launch \<in> set (trace (main w)) then 1 else 0)"
  by (simp add: trace_def main_def verify_def split: sum.split)

text \<open>
  C1 (for every invocation of either script the browser session acquired at the start
  is closed exactly once on every exit path, also when navigation, the attribute check
  or the screenshot step raises: no session dangles after the call returns or raises).
  For every world, whichever call raises or none: each script leaves the \<open>with\<close> block
  exactly once when it entered it; a browser that was launched is closed exactly once,
  by \<open>browser.close()\<close> or, when an exception keeps the script from that call, by
  leaving the block; and no browser is open when the script ends.
\<close>

theorem session_closed_once:
  "calls Exit (trace (run w)) = (if enter w = Inr () then 1 else 0)
   \<and> calls Exit (trace (main w)) = (if enter w = Inr () then 1 else 0)
   \<and> closings False (trace (run w)) = (if Ok Launch \<in> set (trace (run w)) then 1 else 0)
   \<and> closings False (trace (main w)) = (if Ok Launch \<in> set (trace (main w)) then 1 else 0)
   \<and> \<not> session_open False (trace (run w))
   \<and> \<not> session_open False (trace (main w))"
  using run_exits_once [of w] main_exits_once [of w] run_session [of w] main_session [of w]
  by simp

theorem session_closed_once_witness:
  "outcome (run unreachable) = Inl (PlaywrightError ''net::ERR_FILE_NOT_FOUND'')
   \<and> calls Exit (trace (run unreachable)) = 1
   \<and> closings False (trace (run unreachable)) = 1
   \<and> \<not> session_open False (trace (run unreachable))
   \<and> outcome (run no_src_attribute) = Inl TypeError
   \<and> closings False (trace (run no_src_attribute)) = 1
   \<and> \<not> session_open False (trace (run no_src_attribute))
   \<and> outcome (run screenshot_fails) = Inl (OSError ''No space left on device'')
   \<and> closings False (trace (run screenshot_fails)) = 1
   \<and> \<not> session_open False (trace (run screenshot_fails))
   \<and> outcome (main screenshot_fails) = Inl (OSError ''No space left on device'')
   \<and> closings False (trace (main screenshot_fails)) = 1
   \<and> \<not> session_open False (trace (main screenshot_fails))
   \<and> outcome (run no_browser) = Inl (PlaywrightError ''browser executable not found'')
   \<and> calls Exit (trace (run no_browser)) = 1
   \<and> closings False (trace (run no_browser)) = 0
   \<and> closings False (trace (run nominal)) = 1
   \<and> closings False (trace (main nominal)) = 1"
  using session_closed_once [of unreachable] session_closed_once [of no_src_attribute]
    session_closed_once [of screenshot_fails] session_closed_once [of no_browser]
    session_closed_once [of nominal]
  by (simp add: outcome_def trace_def run_def main_def verify_def world_defs)

text \<open>
  On the exception paths of the demo script \<open>browser.close()\<close> itself is not called,
  since it is the last statement of the block: there the session is released by leaving
  the \<open>with\<close> block, which is the last thing the script does.
\<close>

lemma run_close_skipped:
  "calls Close (trace (run unreachable)) = 0
   \<and> calls Close (trace (run no_src_attribute)) = 0
   \<and> calls Close (trace (run screenshot_fails)) = 0
   \<and> last (trace (run screenshot_fails)) = Ok Exit"
  by (simp add: trace_def run_def calls_def world_defs)

section \<open>An unreachable target\<close>

text \<open>
  C6 (when the target URL is unreachable the script raises the navigation error to its
  caller, writes no screenshot, and still closes the browser session). In both scripts,
  after launch and page creation, when \<open>goto\<close> raises: the demo script ends with the
  navigation error, and so does the dashboard script when \<open>browser.close()\<close> in its
  \<open>finally\<close> block returns (an exception escapes in any case); no screenshot call is
  made; the browser is closed exactly once, none is open at the end, and the \<open>with\<close>
  block is left once.
\<close>

theorem unreachable_target:
  assumes "enter w = Inr ()" and "launch w = Inr ()" and "new_page w = Inr ()"
    and "goto w (file_path (cwd w)) = Inl e1" and "goto w dashboard_url = Inl e2"
  shows "outcome (run w) = Inl e1
     \<and> (close w = Inr () \<longrightarrow> outcome (main w) = Inl e2)
     \<and> outcome (main w) \<noteq> Inr ()
     \<and> calls (Screenshot screenshot_path) (trace (run w)) = 0
     \<and> calls (Screenshot dashboard_png) (trace (main w)) = 0
     \<and> \<not> written screenshot_path (trace (run w))
     \<and> \<not> written dashboard_png (trace (main w))
     \<and> closings False (trace (run w)) = 1 \<and> \<not> session_open False (trace (run w))
     \<and> closings False (trace (main w)) = 1 \<and> \<not> session_open False (trace (main w))
     \<and> calls Exit (trace (run w)) = 1 \<and> calls Exit (trace (main w)) = 1"
  using assms
  by (simp add: outcome_def trace_def run_def main_def verify_def calls_def written_def
      split: sum.split)

theorem unreachable_target_witness:
  "goto unreachable (file_path (cwd unreachable)) = Inl (PlaywrightError ''net::ERR_FILE_NOT_FOUND'')
   \<and> goto unreachable dashboard_url = Inl (PlaywrightError ''net::ERR_FILE_NOT_FOUND'')
   \<and> outcome (run unreachable) = Inl (PlaywrightError ''net::ERR_FILE_NOT_FOUND'')
   \<and> outcome (main unreachable) = Inl (PlaywrightError ''net::ERR_FILE_NOT_FOUND'')
   \<and> \<not> written screenshot_path (trace (run unreachable))
   \<and> \<not> written dashboard_png (trace (main unreachable))
   \<and> closings False (trace (run unreachable)) = 1
   \<and> \<not> session_open False (trace (run unreachable))
   \<and> closings False (trace (main unreachable)) = 1
   \<and> \<not> session_open False (trace (main unreachable))"
  using unreachable_target [of unreachable "PlaywrightError ''net::ERR_FILE_NOT_FOUND''"
      "PlaywrightError ''net::ERR_FILE_NOT_FOUND''"]
  by (simp add: world_defs)


section \<open>The directory of the screenshot\<close>

text \<open>
  The demo script calls \<open>os.makedirs\<close> on the directory of its screenshot before every
  screenshot call; the dashboard script never calls \<open>os.makedirs\<close>.
\<close>

lemma dirname_screenshot_path: "dirname screenshot_path = ''verification''"
  by (simp add: dirname_def screenshot_path_def)

lemma dirname_dashboard_png: "dirname dashboard_png = ''verification''"
  by (simp add: dirname_def dashboard_png_def)

lemma run_made_before: "made_before [] (trace (run w))"
  by (simp add: trace_def run_def dirname_screenshot_path split: sum.split option.split)

lemma main_no_makedirs: "calls (Makedirs d) (trace (main w)) = 0"
  by (simp add: trace_def main_def verify_def calls_def split: sum.split)

text \<open>
  The disk after a run, from any directories \<open>ds\<close> present at the start. For the demo
  script the result does not depend on whether the screenshot call creates directories;
  the dashboard script relies on the call doing so, as the run from an empty disk shows.
\<close>

lemma run_disk:
  "disk_after lm ds (trace (run w)) =
     Inr (if Ok (Makedirs ''verification'') \<in> set (trace (run w))
          then List.insert ''verification'' ds else ds,
          if written screenshot_path (trace (run w)) then [screenshot_path] else [])"
  by (simp add: trace_def run_def disk_after_def written_def dirname_screenshot_path
      split: sum.split option.split)

lemma main_disk:
  "disk_after True ds (trace (main w)) =
     Inr (if written dashboard_png (trace (main w))
          then List.insert ''verification'' ds else ds,
          if written dashboard_png (trace (main w)) then [dashboard_png] else [])"
  by (simp add: trace_def main_def verify_def disk_after_def written_def dirname_dashboard_png
      split: sum.split)

lemma main_needs_library_mkdir:
  "disk_after False [] (trace (main nominal)) = Inl (OSError ''No such file or directory'')
   \<and> disk_after False [''verification''] (trace (main nominal))
       = Inr ([''verification''], [''verification/dashboard_mobile_after_fix.png''])"
  by (simp add: trace_def main_def verify_def disk_after_def world_defs text_defs dirname_def)

lemma run_written_after_makedirs:
  "written screenshot_path (trace (run w)) \<longrightarrow>
   Ok (Makedirs ''verification'') \<in> set (trace (run w))"
  by (simp add: trace_def run_def written_def split: sum.split option.split)

text \<open>
  C5 (before the screenshot is written the containing directory of its path is created
  if it is absent, so the write never fails for lack of a parent directory). Whatever
  directories exist at the start, no file write of either script fails for lack of its
  parent directory, and a screenshot that is written lies in a directory that exists.
  In the demo script every screenshot call comes after the script's own successful
  \<open>os.makedirs\<close> of that directory, so this holds whether or not the screenshot call
  creates directories itself (\<open>lm\<close> is free); in the dashboard script the directory is
  created by the screenshot call, under the contract the spec gives for it.
\<close>

theorem directory_before_write:
  "disk_after lm ds (trace (run w)) \<noteq> Inl e
   \<and> disk_after True ds (trace (main w)) \<noteq> Inl e
   \<and> made_before [] (trace (run w))
   \<and> (written screenshot_path (trace (run w)) \<longrightarrow>
        (\<exists>dirs files. disk_after lm ds (trace (run w)) = Inr (dirs, files)
           \<and> dirname screenshot_path \<in> set dirs \<and> screenshot_path \<in> set files))
   \<and> (written dashboard_png (trace (main w)) \<longrightarrow>
        (\<exists>dirs files. disk_after True ds (trace (main w)) = Inr (dirs, files)
           \<and> dirname dashboard_png \<in> set dirs \<and> dashboard_png \<in> set files))"
  using run_written_after_makedirs [of w] run_made_before [of w]
  by (simp add: run_disk main_disk dirname_screenshot_path dirname_dashboard_png)

theorem directory_before_write_witness:
  "written screenshot_path (trace (run nominal))
   \<and> disk_after False [] (trace (run nominal))
       = Inr ([''verification''], [''verification/demo_page.png''])
   \<and> written dashboard_png (trace (main nominal))
   \<and> disk_after True [] (trace (main nominal))
       = Inr ([''verification''], [''verification/dashboard_mobile_after_fix.png''])"
  using directory_before_write [of False "[]" nominal _ ]
  by (simp add: trace_def run_def main_def verify_def disk_after_def written_def world_defs
      text_defs dirname_def)


section \<open>Exit status\<close>

text \<open>
  The exit status is 0 exactly when the script returned and standard output could be
  flushed. How each script ends is decided by the first call that raises; in the
  dashboard script an exception of \<open>browser.close()\<close> in the \<open>finally\<close> block replaces
  the one of \<open>verify\<close>. A script that returned has had every call outside the selector
  wait succeed.
\<close>

lemma exit_code_zero: "exit_code flushed r = 0 \<longleftrightarrow> flushed \<and> r = Inr ()"
  by (cases r) (simp_all add: exit_code_def split: exn.split)

lemma main_outcome:
  "outcome (main w) =
     (case enter w of Inl e \<Rightarrow> Inl e | Inr a \<Rightarrow>
      case launch w of Inl e \<Rightarrow> Inl e | Inr b \<Rightarrow>
      case new_page w of Inl e \<Rightarrow> Inl e | Inr c \<Rightarrow>
      case close w of Inl e \<Rightarrow> Inl e | Inr d \<Rightarrow>
      case goto w dashboard_url of Inl e \<Rightarrow> Inl e | Inr f \<Rightarrow> screenshot w)"
  by (simp add: outcome_def main_def verify_def split: sum.split)

lemma run_outcome:
  "outcome (run w) =
     (case enter w of Inl e \<Rightarrow> Inl e | Inr a \<Rightarrow>
      case launch w of Inl e \<Rightarrow> Inl e | Inr b \<Rightarrow>
      case new_page w of Inl e \<Rightarrow> Inl e | Inr c \<Rightarrow>
      case goto w (file_path (cwd w)) of Inl e \<Rightarrow> Inl e | Inr d \<Rightarrow>
      case get_attribute w of Inl e \<Rightarrow> Inl e | Inr None \<Rightarrow> Inl TypeError | Inr (Some s) \<Rightarrow>
      case makedirs w of Inl e \<Rightarrow> Inl e | Inr f \<Rightarrow>
      case screenshot w of Inl e \<Rightarrow> Inl e | Inr g \<Rightarrow> close w)"
  by (simp add: outcome_def run_def split: sum.split option.split)

lemma main_returns_only_if:
  "outcome (main w) = Inr () \<longrightarrow>
     enter w = Inr () \<and> launch w = Inr () \<and> new_page w = Inr ()
     \<and> goto w dashboard_url = Inr () \<and> screenshot w = Inr () \<and> close w = Inr ()"
  by (simp add: main_outcome split: sum.split)

lemma run_returns_only_if:
  "outcome (run w) = Inr () \<longrightarrow>
     enter w = Inr () \<and> launch w = Inr () \<and> new_page w = Inr ()
     \<and> goto w (file_path (cwd w)) = Inr () \<and> (\<exists>v. get_attribute w = Inr v)
     \<and> makedirs w = Inr () \<and> screenshot w = Inr () \<and> close w = Inr ()"
  by (simp add: run_outcome split: sum.split option.split)

lemma run_failure_printed:
  assumes "outcome (run w) = Inr ()" and "get_attribute w = Inr (Some s)"
    and "\<not> str_contains ''assets/demo.mp4'' s"
  shows "printed ''FAILURE: Video source is incorrect.'' (trace (run w))"
proof -
  have ok: "enter w = Inr ()" "launch w = Inr ()" "new_page w = Inr ()"
    "goto w (file_path (cwd w)) = Inr ()" "makedirs w = Inr ()" "screenshot w = Inr ()"
    "close w = Inr ()"
    using run_returns_only_if [of w] assms(1) by simp_all
  show ?thesis
    using ok assms(2,3) by (simp add: trace_def run_def printed_def)
qed

text \<open>
  C7, as amended (each script exits with status 0 on completion when standard output can
  be flushed at exit, also when the attribute check prints FAILURE; every exception that
  escapes gives a non-zero status, and launch and navigation errors are not the only
  ones that escape). A script that returned exits with status 0 when the flush succeeds,
  and a demo run that returned after reading a string without the expected substring
  has printed FAILURE. Status 0 implies that entering the context, launch, page
  creation, navigation, the screenshot call and \<open>browser.close()\<close> all succeeded, and
  in the demo script also the attribute read and \<open>os.makedirs\<close>: an exception of any
  of these calls gives a non-zero status.
\<close>

theorem exit_code_of_scripts:
  "(flushed \<and> outcome (main w) = Inr () \<longrightarrow> exit_code flushed (outcome (main w)) = 0)
   \<and> (flushed \<and> outcome (run w) = Inr () \<longrightarrow> exit_code flushed (outcome (run w)) = 0)
   \<and> (outcome (run w) = Inr () \<and> get_attribute w = Inr (Some s)
        \<and> \<not> str_contains ''assets/demo.mp4'' s
       \<longrightarrow> printed ''FAILURE: Video source is incorrect.'' (trace (run w)))
   \<and> (exit_code flushed (outcome (main w)) = 0 \<longrightarrow>
        enter w = Inr () \<and> launch w = Inr () \<and> new_page w = Inr ()
        \<and> goto w dashboard_url = Inr () \<and> screenshot w = Inr () \<and> close w = Inr ())
   \<and> (exit_code flushed (outcome (run w)) = 0 \<longrightarrow>
        enter w = Inr () \<and> launch w = Inr () \<and> new_page w = Inr ()
        \<and> goto w (file_path (cwd w)) = Inr () \<and> (\<exists>v. get_attribute w = Inr v)
        \<and> makedirs w = Inr () \<and> screenshot w = Inr () \<and> close w = Inr ())"
  using main_returns_only_if [of w] run_returns_only_if [of w] run_failure_printed [of w s]
  by (simp add: exit_code_zero)

theorem exit_code_of_scripts_witness:
  "outcome (run wrong_video) = Inr ()
   \<and> get_attribute wrong_video = Inr (Some ''assets/wrong.mp4'')
   \<and> printed ''FAILURE: Video source is incorrect.'' (trace (run wrong_video))
   \<and> exit_code True (outcome (run wrong_video)) = 0
   \<and> exit_code True (outcome (main wrong_video)) = 0
   \<and> screenshot screenshot_fails \<noteq> Inr ()
   \<and> exit_code True (outcome (main screenshot_fails)) \<noteq> 0
   \<and> exit_code True (outcome (run screenshot_fails)) \<noteq> 0"
proof -
  have a: "outcome (run wrong_video) = Inr ()" "outcome (main wrong_video) = Inr ()"
    "get_attribute wrong_video = Inr (Some ''assets/wrong.mp4'')"
    "screenshot screenshot_fails \<noteq> Inr ()"
    by (simp_all add: outcome_def run_def main_def verify_def world_defs)
  have b: "\<not> str_contains ''assets/demo.mp4'' ''assets/wrong.mp4''" by simp
  show ?thesis
    using a b exit_code_of_scripts [of True wrong_video "''assets/wrong.mp4''"]
      exit_code_of_scripts [of True screenshot_fails "''assets/demo.mp4''"]
    by simp
qed

text \<open>
  C7, as stated (status 0 on completion; only an unhandled launch or navigation error
  produces a non-zero exit), fails twice. In the dashboard script launch and navigation
  succeed, the screenshot call raises \<open>OSError\<close>, nothing catches it, and the status is
  1. And the demo script, with every call succeeding, completes, yet the status is 120
  when the interpreter cannot flush standard output at exit.
\<close>

theorem nonzero_exit_counterexample:
  "Ok Launch \<in> set (trace (main screenshot_fails))
   \<and> Ok (Goto ''http://localhost:3000/mobile'') \<in> set (trace (main screenshot_fails))
   \<and> outcome (main screenshot_fails) = Inl (OSError ''No space left on device'')
   \<and> exit_code True (outcome (main screenshot_fails)) = 1
   \<and> outcome (run nominal) = Inr ()
   \<and> exit_code False (outcome (run nominal)) = 120"
  by (simp add: outcome_def trace_def run_def main_def verify_def exit_code_def world_defs text_defs)


text \<open>
  C10 (the SUCCESS/FAILURE classification of the demo script is a substring test: every
  \<open>src\<close> value that contains \<open>assets/demo.mp4\<close> anywhere, such as
  \<open>other/assets/demo.mp4?v=2\<close>, is classified SUCCESS, not only the exact value). For
  every string the attribute read returns, SUCCESS is printed exactly when the string is
  some text, then \<open>assets/demo.mp4\<close>, then some text, and FAILURE exactly when it is
  not of that form.
\<close>

theorem run_substring_test:
  assumes "enter w = Inr ()" and "launch w = Inr ()" and "new_page w = Inr ()"
    and "goto w (file_path (cwd w)) = Inr ()"
    and "get_attribute w = Inr (Some s)"
  shows "printed ''SUCCESS: Video source is correct.'' (trace (run w))
           = (\<exists>before after. s = before @ ''assets/demo.mp4'' @ after)
     \<and> printed ''FAILURE: Video source is incorrect.'' (trace (run w))
           = (\<not> (\<exists>before after. s = before @ ''assets/demo.mp4'' @ after))"
  using run_classifies_strings [OF assms] by (simp add: str_contains_iff)

theorem run_substring_test_witness:
  "get_attribute other_video = Inr (Some ''other/assets/demo.mp4?v=2'')
   \<and> ''other/assets/demo.mp4?v=2'' \<noteq> ''assets/demo.mp4''
   \<and> printed ''SUCCESS: Video source is correct.'' (trace (run other_video))
   \<and> \<not> printed ''FAILURE: Video source is incorrect.'' (trace (run other_video))
   \<and> get_attribute wrong_video = Inr (Some ''assets/wrong.mp4'')
   \<and> printed ''FAILURE: Video source is incorrect.'' (trace (run wrong_video))
   \<and> \<not> printed ''SUCCESS: Video source is correct.'' (trace (run wrong_video))"
proof -
  have a: "\<exists>before after. ''other/assets/demo.mp4?v=2'' = before @ ''assets/demo.mp4'' @ after"
    using str_contains_iff [of "''assets/demo.mp4''" "''other/assets/demo.mp4?v=2''"] by simp
  have b: "\<not> (\<exists>before after. ''assets/wrong.mp4'' = before @ ''assets/demo.mp4'' @ after)"
    using str_contains_iff [of "''assets/demo.mp4''" "''assets/wrong.mp4''"] by simp
  show ?thesis
    using a b run_substring_test [of other_video "''other/assets/demo.mp4?v=2''"]
      run_substring_test [of wrong_video "''assets/wrong.mp4''"]
    by (simp add: other_video_def wrong_video_def nominal_def)
qed

end
